theory Spec2Isabelle
  imports Complex_Main
begin

text \<open>
  A model of the reservation and chat client of the student marketplace: the hooks
  \<open>useReservations\<close> and \<open>useChat\<close>, the chat window, the contact-seller button and
  the reservation timer, with the properties the specification states about them.
\<close>

section \<open>The JavaScript values the client code works on\<close>

text \<open>
  A JavaScript string is a sequence of UTF-16 code units; a code unit is modelled as a
  natural number. \<open>js\<close> writes an ASCII literal as such a sequence.
\<close>

type_synonym jsstring = "nat list"

definition js :: "string \<Rightarrow> jsstring" where
  "js s = map of_char s"

text \<open>
  \<open>String.prototype.trim\<close> removes WhiteSpace and LineTerminator code points from both
  ends. All of them lie in the basic plane, so the test is on single code units: TAB, LF,
  VT, FF, CR, SP, NBSP, U+1680, U+2000 to U+200A, LS, PS, U+202F, U+205F, U+3000 and the
  byte order mark.
\<close>

definition isWhiteSpace :: "nat \<Rightarrow> bool" where
  "isWhiteSpace c \<longleftrightarrow>
     c \<in> set [9, 10, 11, 12, 13, 32, 160, 5760, 8232, 8233, 8239, 8287, 12288, 65279]
     \<or> (8192 \<le> c \<and> c \<le> 8202)"

definition trim :: "jsstring \<Rightarrow> jsstring" where
  "trim s = rev (dropWhile isWhiteSpace (rev (dropWhile isWhiteSpace s)))"

text \<open>
  \<open>String.prototype.toUpperCase\<close> is the runtime's case mapping, which follows the
  Unicode tables of the engine; like the date parser it is a parameter of the function
  that calls it.
\<close>

type_synonym caseMapper = "jsstring \<Rightarrow> jsstring"

text \<open>
  \<open>new Date(s).getTime()\<close> is the runtime's date parser: it yields the time value in
  milliseconds since the epoch, or NaN for a string it does not accept. The parser is a
  parameter of every function that calls it; \<open>None\<close> stands for NaN. \<open>Date.now()\<close>
  is the parameter \<open>now\<close>, in milliseconds.
\<close>

type_synonym dateParser = "jsstring \<Rightarrow> int option"

text \<open>Decimal rendering of a non-negative integer, as a template literal prints it.\<close>

fun showNat :: "nat \<Rightarrow> jsstring" where
  "showNat n = (if n < 10 then [48 + n] else showNat (n div 10) @ [48 + n mod 10])"

declare showNat.simps [simp del]

text \<open>Thrown values: \<open>new Error(message)\<close>.\<close>

datatype jsError = Error jsstring

datatype httpMethod = GET | POST | PUT | DELETE

record 'b request =
  reqMethod :: httpMethod
  reqPath :: jsstring
  reqBody :: 'b

section \<open>Responses of the API client\<close>

text \<open>
  What \<open>api.get\<close> and \<open>api.post\<close> hand back is a parsed JSON document, a text, or
  \<open>undefined\<close> (status 204). An object is the list of its own properties, found by key;
  the keys of a parsed document are distinct.
\<close>

datatype jsvalue =
    JUndefined
  | JNull
  | JBool bool
  | JNum rat
  | JStr jsstring
  | JArr "jsvalue list"
  | JObj "(jsstring \<times> jsvalue) list"

datatype jstype = T_undefined | T_object | T_boolean | T_number | T_string

fun typeof :: "jsvalue \<Rightarrow> jstype" where
  "typeof JUndefined = T_undefined"
| "typeof JNull = T_object"
| "typeof (JBool b) = T_boolean"
| "typeof (JNum q) = T_number"
| "typeof (JStr s) = T_string"
| "typeof (JArr vs) = T_object"
| "typeof (JObj kvs) = T_object"

fun truthy :: "jsvalue \<Rightarrow> bool" where
  "truthy JUndefined = False"
| "truthy JNull = False"
| "truthy (JBool b) = b"
| "truthy (JNum q) = (q \<noteq> 0)"
| "truthy (JStr s) = (s \<noteq> [])"
| "truthy (JArr vs) = True"
| "truthy (JObj kvs) = True"

text \<open>
  Reading a property by name. The names the client reads (\<open>_id\<close>, \<open>productId\<close>,
  \<open>userId\<close>, \<open>status\<close>, \<open>expiresAt\<close>, \<open>reservedAt\<close>, \<open>reservations\<close>) are no
  built-in properties of arrays, strings or \<open>Object.prototype\<close>, so anything but an own
  property of an object reads as \<open>undefined\<close>.
\<close>

fun getProp :: "jsvalue \<Rightarrow> jsstring \<Rightarrow> jsvalue" where
  "getProp (JObj kvs) k = (case map_of kvs k of None \<Rightarrow> JUndefined | Some v \<Rightarrow> v)"
| "getProp v k = JUndefined"

text \<open>\<open>key in value\<close>, for an object and one of the names above.\<close>

fun hasProp :: "jsstring \<Rightarrow> jsvalue \<Rightarrow> bool" where
  "hasProp k (JObj kvs) = (map_of kvs k \<noteq> None)"
| "hasProp k v = False"

fun isArray :: "jsvalue \<Rightarrow> bool" where
  "isArray (JArr vs) = True"
| "isArray v = False"

fun elements :: "jsvalue \<Rightarrow> jsvalue list" where
  "elements (JArr vs) = vs"
| "elements v = []"

text \<open>
  The error \<open>request\<close> throws: the HTTP status (0 for a network failure), the message,
  and the parsed error body, of which the client reads \<open>data?.chatId\<close>.
\<close>

record errorData =
  ed_chatId :: "jsstring option"

record apiError =
  err_status :: int
  err_message :: jsstring
  err_data :: "errorData option"

text \<open>How an awaited request settles.\<close>

datatype 'a settled = Resolved 'a | Rejected apiError

section \<open>hooks/useReservations.tsx\<close>

record Reservation =
  res_id :: jsstring
  res_productId :: jsstring
  res_userId :: jsstring
  res_userName :: "jsstring option"
  res_reservedAt :: jsstring
  res_expiresAt :: jsstring
  res_status :: jsstring
  res_durationMinutes :: int

record CreateReservationData =
  crd_productId :: jsstring
  crd_durationMinutes :: int

text \<open>
  \<open>isValidReservation\<close> inspects a value of unknown shape: an object with string
  \<open>_id\<close>, \<open>productId\<close>, \<open>userId\<close>, \<open>status\<close> and \<open>expiresAt\<close>, an \<open>expiresAt\<close>
  that parses, and a \<open>reservedAt\<close> that parses when it is a non-empty string.
\<close>

definition isValidReservation :: "dateParser \<Rightarrow> jsvalue \<Rightarrow> bool" where
  "isValidReservation parse reservation =
     (if \<not> truthy reservation \<or> typeof reservation \<noteq> T_object then False
      else if typeof (getProp reservation (js ''_id'')) \<noteq> T_string
            \<or> typeof (getProp reservation (js ''productId'')) \<noteq> T_string
            \<or> typeof (getProp reservation (js ''userId'')) \<noteq> T_string
            \<or> typeof (getProp reservation (js ''status'')) \<noteq> T_string
            \<or> typeof (getProp reservation (js ''expiresAt'')) \<noteq> T_string
      then False
      else case getProp reservation (js ''expiresAt'') of
        JStr expiresAt \<Rightarrow>
          (case parse expiresAt of
             None \<Rightarrow> False
           | Some expiryDate \<Rightarrow>
               (case getProp reservation (js ''reservedAt'') of
                  JStr reservedAt \<Rightarrow>
                    if reservedAt \<noteq> [] then
                      (case parse reservedAt of None \<Rightarrow> False | Some reservedDate \<Rightarrow> True)
                    else True
                | other \<Rightarrow> True))
      | other \<Rightarrow> False)"

text \<open>
  The body of the \<open>try\<close> block of the query function: an exception of \<open>api.get\<close>
  leaves it as \<open>Inl\<close>.
\<close>

definition useMyReservations_try :: "dateParser \<Rightarrow> jsvalue settled \<Rightarrow> apiError + jsvalue list" where
  "useMyReservations_try parse fetched =
     (case fetched of
        Rejected e \<Rightarrow> Inl e
      | Resolved response \<Rightarrow>
          let reservations =
            (if isArray response then elements response
             else if truthy response \<and> typeof response = T_object
                     \<and> hasProp (js ''reservations'') response
             then (let res = getProp response (js ''reservations'')
                   in if isArray res then elements res else [])
             else [])
          in Inr (filter (isValidReservation parse) reservations))"

text \<open>The query function: the \<open>catch\<close> clause turns any exception into the empty list.\<close>

definition useMyReservations_queryFn :: "dateParser \<Rightarrow> jsvalue settled \<Rightarrow> apiError + jsvalue list" where
  "useMyReservations_queryFn parse fetched =
     (case useMyReservations_try parse fetched of
        Inl error \<Rightarrow> Inr []
      | Inr reservations \<Rightarrow> Inr reservations)"

text \<open>\<open>/^[0-9a-fA-F]{24}$/.test(id)\<close>: exactly 24 hexadecimal digits.\<close>

definition isHexDigit :: "nat \<Rightarrow> bool" where
  "isHexDigit c \<longleftrightarrow> (48 \<le> c \<and> c \<le> 57) \<or> (97 \<le> c \<and> c \<le> 102) \<or> (65 \<le> c \<and> c \<le> 70)"

definition isValidObjectId :: "jsstring \<Rightarrow> bool" where
  "isValidObjectId ident \<longleftrightarrow> length ident = 24 \<and> list_all isHexDigit ident"

text \<open>
  The mutation function of \<open>useCreateReservation\<close>: it throws before any request is built,
  or returns the request handed to \<open>api.post\<close>.
\<close>

definition useCreateReservation_mutationFn ::
  "CreateReservationData \<Rightarrow> jsError + CreateReservationData request" where
  "useCreateReservation_mutationFn d =
     (if crd_productId d = [] \<or> \<not> isValidObjectId (crd_productId d)
      then Inl (Error (js ''Invalid product ID''))
      else if crd_durationMinutes d = 0 \<or> crd_durationMinutes d \<notin> set [30, 60, 120, 1440]
      then Inl (Error (js ''Invalid duration. Must be 30, 60, 120, or 1440 minutes''))
      else Inr \<lparr>reqMethod = POST, reqPath = js ''/reservations'', reqBody = d\<rparr>)"

text \<open>The expiry helpers; a missing or unparsable date counts as expired, with no time left.\<close>

definition isReservationExpired :: "dateParser \<Rightarrow> int \<Rightarrow> jsstring \<Rightarrow> bool" where
  "isReservationExpired parse now expiresAt =
     (if expiresAt = [] then True
      else case parse expiresAt of
             None \<Rightarrow> True
           | Some expiryTime \<Rightarrow> expiryTime < now)"

definition getTimeRemaining :: "dateParser \<Rightarrow> int \<Rightarrow> jsstring \<Rightarrow> int" where
  "getTimeRemaining parse now expiresAt =
     (if expiresAt = [] then 0
      else case parse expiresAt of
             None \<Rightarrow> 0
           | Some expiryTime \<Rightarrow>
               (let remaining = expiryTime - now in if remaining > 0 then remaining else 0))"

definition formatTimeRemaining :: "dateParser \<Rightarrow> int \<Rightarrow> jsstring \<Rightarrow> jsstring" where
  "formatTimeRemaining parse now expiresAt =
     (let remaining = getTimeRemaining parse now expiresAt in
      if remaining = 0 then js ''Expired''
      else
        let seconds = nat (remaining div 1000);
            minutes = seconds div 60;
            hours = minutes div 60;
            days = hours div 24
        in if days > 0 then showNat days @ js ''d '' @ showNat (hours mod 24) @ js ''h''
           else if hours > 0 then showNat hours @ js ''h '' @ showNat (minutes mod 60) @ js ''m''
           else if minutes > 0 then showNat minutes @ js ''m '' @ showNat (seconds mod 60) @ js ''s''
           else showNat seconds @ js ''s'')"

text \<open>The argument is \<open>Reservation | null | undefined\<close>; \<open>None\<close> is either of the last two.\<close>

definition isReservationActive ::
  "caseMapper \<Rightarrow> dateParser \<Rightarrow> int \<Rightarrow> Reservation option \<Rightarrow> bool" where
  "isReservationActive toUpperCase parse now reservation =
     (case reservation of
        None \<Rightarrow> False
      | Some r \<Rightarrow>
          if res_status r = [] \<or> res_expiresAt r = [] then False
          else toUpperCase (res_status r) = js ''ACTIVE''
               \<and> \<not> isReservationExpired parse now (res_expiresAt r))"

section \<open>components/ReservationTimer.tsx\<close>

text \<open>
  The timer's \<open>isExpired\<close> state, as its initialiser and its effect set it:
  \<open>getTimeRemaining(expiresAt) === 0\<close>. An expired timer renders nothing.
\<close>

definition ReservationTimer_isExpired :: "dateParser \<Rightarrow> int \<Rightarrow> jsstring \<Rightarrow> bool" where
  "ReservationTimer_isExpired parse now expiresAt \<longleftrightarrow> getTimeRemaining parse now expiresAt = 0"

section \<open>hooks/useChat.tsx\<close>

record Message =
  msg_id :: jsstring
  msg_chatId :: jsstring
  msg_senderId :: jsstring
  msg_senderName :: jsstring
  msg_senderAvatar :: "jsstring option"
  msg_receiverId :: jsstring
  msg_message :: jsstring
  msg_createdAt :: jsstring
  msg_delivered :: bool
  msg_read :: bool

record Participant =
  part_id :: jsstring
  part_name :: jsstring
  part_avatar :: "jsstring option"
  part_isOnline :: "bool option"

record Chat =
  chat_id :: jsstring
  chat_buyerId :: jsstring
  chat_sellerId :: jsstring
  chat_productId :: "jsstring option"
  chat_productTitle :: "jsstring option"
  chat_productImage :: "jsstring option"
  chat_lastMessage :: "jsstring option"
  chat_lastMessageAt :: "jsstring option"
  chat_expiresAt :: jsstring
  chat_participants :: "Participant list"
  chat_unreadCount :: "int option"
  chat_createdAt :: jsstring

text \<open>
  The updater that \<open>handleReceiveMessage\<close> hands to \<open>setQueryData\<close> for the key
  \<open>['messages', chatId]\<close>. The cache entry is \<open>None\<close> while the query has no data.
\<close>

definition handleReceiveMessage :: "Message \<Rightarrow> Message list option \<Rightarrow> Message list option" where
  "handleReceiveMessage message old =
     (case old of
        None \<Rightarrow> Some [message]
      | Some ms \<Rightarrow>
          if list_ex (\<lambda>m. msg_id m = msg_id message) ms then Some ms
          else Some (ms @ [message]))"

text \<open>The cache after a sequence of \<open>receive_message\<close> events, in arrival order.\<close>

fun receiveAll :: "Message list \<Rightarrow> Message list option \<Rightarrow> Message list option" where
  "receiveAll [] cache = cache"
| "receiveAll (m # rest) cache = receiveAll rest (handleReceiveMessage m cache)"

text \<open>A cache entry in which every message id occurs at most once.\<close>

definition distinctIds :: "Message list option \<Rightarrow> bool" where
  "distinctIds cache = (case cache of None \<Rightarrow> True | Some L \<Rightarrow> distinct (map msg_id L))"

text \<open>The events the hook emits on the socket.\<close>

datatype socketEvent =
    join_chat jsstring
  | leave_chat jsstring
  | send_message jsstring jsstring
  | typing jsstring
  | stop_typing jsstring
  | mark_read jsstring

text \<open>
  \<open>sendMessage\<close>: \<open>socket\<close> tells whether the socket object exists, \<open>chatId\<close> is the
  optional route parameter, \<open>isConnected\<close> the connection status. The result is the list
  of events emitted by the call.
\<close>

definition sendMessage :: "bool \<Rightarrow> jsstring option \<Rightarrow> bool \<Rightarrow> jsstring \<Rightarrow> socketEvent list" where
  "sendMessage socket chatId isConnected message =
     (case chatId of
        None \<Rightarrow> []
      | Some cid \<Rightarrow>
          if \<not> socket \<or> cid = [] \<or> \<not> isConnected \<or> trim message = [] then []
          else [send_message cid (trim message)])"

text \<open>
  \<open>stopTyping\<close>: \<open>isTyping\<close> is the hook's own typing flag. The result is the flag
  after the call and the events emitted.
\<close>

definition stopTyping :: "bool \<Rightarrow> jsstring option \<Rightarrow> bool \<Rightarrow> bool \<Rightarrow> bool \<times> socketEvent list" where
  "stopTyping socket chatId isConnected isTyping =
     (case chatId of
        None \<Rightarrow> (isTyping, [])
      | Some cid \<Rightarrow>
          if \<not> socket \<or> cid = [] \<or> \<not> isConnected then (isTyping, [])
          else if isTyping then (False, [stop_typing cid])
          else (isTyping, []))"

text \<open>The expiry helpers of the chat; a missing or unparsable date counts as not expired.\<close>

definition isChatExpired :: "dateParser \<Rightarrow> int \<Rightarrow> jsstring \<Rightarrow> bool" where
  "isChatExpired parse now expiresAt =
     (if expiresAt = [] then False
      else case parse expiresAt of
             None \<Rightarrow> False
           | Some expiryTime \<Rightarrow> expiryTime < now)"

text \<open>
  \<open>Math.ceil(diff / (1000 * 60 * 60 * 24))\<close>. Both time values are integers of magnitude
  below \<open>2^53\<close>, the divisor is 86400000, and a quotient that is not an integer lies at
  least \<open>1/86400000\<close> from the next integer, more than the rounding error of the double
  division; so the ceiling of the double quotient is the ceiling of the exact quotient.
\<close>

definition getChatExpiryDays :: "dateParser \<Rightarrow> int \<Rightarrow> jsstring \<Rightarrow> int" where
  "getChatExpiryDays parse now expiresAt =
     (if expiresAt = [] then 0
      else case parse expiresAt of
             None \<Rightarrow> 0
           | Some expiryTime \<Rightarrow>
               (let diff = expiryTime - now
                in \<lceil>real_of_int diff / (1000 * 60 * 60 * 24)\<rceil>))"

section \<open>The chat window page (ChatWindow)\<close>

text \<open>
  \<open>handleSendMessage\<close> of the chat window. It clears the text box, calls
  \<open>stopTyping\<close> and then \<open>sendMessage\<close> with the trimmed text; it does not look at the
  clock or at the chat's expiry. The result is the new content of the text box, the
  hook's typing flag and the events emitted, in order.
\<close>

definition ChatWindow_handleSendMessage ::
  "bool \<Rightarrow> jsstring option \<Rightarrow> bool \<Rightarrow> bool \<Rightarrow> bool \<Rightarrow> jsstring
     \<Rightarrow> jsstring \<times> bool \<times> socketEvent list" where
  "ChatWindow_handleSendMessage socket chatId isConnected isTyping isSending messageText =
     (if trim messageText = [] \<or> isSending \<or> \<not> isConnected then (messageText, isTyping, [])
      else
        let text = trim messageText;
            stopped = stopTyping socket chatId isConnected isTyping
        in ([], fst stopped, snd stopped @ sendMessage socket chatId isConnected text))"

text \<open>
  The window renders the text box and the send button only under \<open>!isExpired\<close>, where
  \<open>isExpired = isChatExpired(chat.expiresAt)\<close> is computed when the window renders, at
  time \<open>renderNow\<close>.
\<close>

definition ChatWindow_inputRendered :: "dateParser \<Rightarrow> int \<Rightarrow> Chat \<Rightarrow> bool" where
  "ChatWindow_inputRendered parse renderNow chat \<longleftrightarrow>
     \<not> isChatExpired parse renderNow (chat_expiresAt chat)"

text \<open>
  What a press of the send button (or of Enter) emits in a window last rendered at
  \<open>renderNow\<close>: the handler hangs on the rendered input only, and the time of the press
  plays no part.
\<close>

definition ChatWindow_post ::
  "dateParser \<Rightarrow> int \<Rightarrow> Chat \<Rightarrow> bool \<Rightarrow> jsstring option \<Rightarrow> bool \<Rightarrow> bool \<Rightarrow> bool \<Rightarrow> jsstring
     \<Rightarrow> socketEvent list" where
  "ChatWindow_post parse renderNow chat socket chatId isConnected isTyping isSending messageText =
     (if ChatWindow_inputRendered parse renderNow chat
      then snd (snd (ChatWindow_handleSendMessage socket chatId isConnected isTyping isSending
                       messageText))
      else [])"

section \<open>components/ContactSellerButton.tsx\<close>

record CreateChatData =
  ccd_buyerId :: "jsstring option"
  ccd_sellerId :: "jsstring option"
  ccd_productId :: "jsstring option"

text \<open>What the handler does to the page, in order.\<close>

datatype uiAction =
    toast_error jsstring "jsstring option"
  | toast_success jsstring jsstring
  | navigate jsstring jsstring
  | setIsCreating bool
  | setShowDialog bool
  | setMessage jsstring

text \<open>
  The test of the \<open>catch\<close> clause: the status is 409 and \<open>data?.chatId\<close> is truthy,
  that is, a non-empty string.
\<close>

definition existingChatId :: "apiError \<Rightarrow> jsstring option" where
  "existingChatId error =
     (if err_status error = 409 then
        (case err_data error of
           None \<Rightarrow> None
         | Some d \<Rightarrow>
             (case ed_chatId d of
                None \<Rightarrow> None
              | Some chatId \<Rightarrow> if chatId \<noteq> [] then Some chatId else None))
      else None)"

text \<open>
  \<open>handleSendMessage\<close> of the contact button. \<open>createChat\<close> is the mutation
  \<open>api.post('/chats', data)\<close>: how the request for the given data settles. The result is
  the request issued, if any, and the page actions; \<open>navigate path initialMessage\<close>
  carries the route and the \<open>initialMessage\<close> of its state.
\<close>

definition ContactSeller_handleSendMessage ::
  "jsstring \<Rightarrow> jsstring \<Rightarrow> jsstring option \<Rightarrow> jsstring \<Rightarrow> (CreateChatData \<Rightarrow> Chat settled)
     \<Rightarrow> CreateChatData option \<times> uiAction list" where
  "ContactSeller_handleSendMessage sellerId sellerName productId message createChat =
     (if trim message = [] then (None, [toast_error (js ''Please enter a message'') None])
      else
        let data = \<lparr>ccd_buyerId = None, ccd_sellerId = Some sellerId, ccd_productId = productId\<rparr>;
            cleanup = [setIsCreating False, setShowDialog False, setMessage []]
        in (Some data,
            [setIsCreating True] @
            (case createChat data of
               Resolved chat \<Rightarrow>
                 [toast_success (js ''Chat created!'') (js ''You can now message '' @ sellerName),
                  navigate (js ''/chat/'' @ chat_id chat) (trim message)]
             | Rejected error \<Rightarrow>
                 (case existingChatId error of
                    Some chatId \<Rightarrow> [navigate (js ''/chat/'' @ chatId) (trim message)]
                  | None \<Rightarrow>
                      [toast_error (js ''Failed to contact seller'') (Some (err_message error))]))
            @ cleanup))"



section \<open>The lease manager behind the reservation endpoints\<close>

text \<open>
  Modelled from the spec: the Lease data model of section 3. The lease manager runs on
  the server; this repository holds only its callers (\<open>useCreateReservation\<close>,
  \<open>useCancelReservation\<close>), so leases, their store and the operations below follow the
  spec's words. An id is opaque; the store hands out its length, which no earlier lease has.
\<close>

datatype leaseStatus = ACTIVE | EXPIRED | CANCELLED

record Lease =
  lease_id :: nat
  lease_product :: jsstring
  lease_holder :: jsstring
  lease_createdAt :: int
  lease_durationMinutes :: int
  lease_expiresAt :: int
  lease_status :: leaseStatus

datatype leaseError = InvalidArgument | Conflict nat | Forbidden | NotFound

text \<open>Modelled from the spec: the leases of a product whose status is ACTIVE.\<close>

definition activeLeases :: "jsstring \<Rightarrow> Lease list \<Rightarrow> Lease list" where
  "activeLeases productId store =
     filter (\<lambda>l. lease_product l = productId \<and> lease_status l = ACTIVE) store"

text \<open>
  Modelled from the spec: \<open>createLease(productId, holderId, durationMinutes)\<close> of section
  4.1. It rejects a duration outside the four values with InvalidArgument, rejects with
  Conflict and the existing lease's id while an ACTIVE lease exists for the product, and
  otherwise stores a new ACTIVE lease expiring at creation plus duration.
\<close>

definition createLease ::
  "int \<Rightarrow> jsstring \<Rightarrow> jsstring \<Rightarrow> int \<Rightarrow> Lease list \<Rightarrow> leaseError + Lease \<times> Lease list" where
  "createLease now productId holderId durationMinutes store =
     (if durationMinutes \<notin> set [30, 60, 120, 1440] then Inl InvalidArgument
      else case activeLeases productId store of
             existing # others \<Rightarrow> Inl (Conflict (lease_id existing))
           | [] \<Rightarrow>
               let lease = \<lparr>lease_id = length store, lease_product = productId,
                     lease_holder = holderId, lease_createdAt = now,
                     lease_durationMinutes = durationMinutes,
                     lease_expiresAt = now + durationMinutes * 60000, lease_status = ACTIVE\<rparr>
               in Inr (lease, store @ [lease]))"

text \<open>
  Modelled from the spec: \<open>cancelLease(leaseId, requesterId)\<close> of section 4.1, ACTIVE to
  CANCELLED; Forbidden for anyone but the holder, NotFound for an unknown id, Conflict
  for a lease that is no longer ACTIVE. The status changes by compare-and-set on the
  lease of that id.
\<close>

definition cancelLease :: "nat \<Rightarrow> jsstring \<Rightarrow> Lease list \<Rightarrow> leaseError + Lease list" where
  "cancelLease leaseId requesterId store =
     (case find (\<lambda>l. lease_id l = leaseId) store of
        None \<Rightarrow> Inl NotFound
      | Some l \<Rightarrow>
          if lease_holder l \<noteq> requesterId then Inl Forbidden
          else if lease_status l \<noteq> ACTIVE then Inl (Conflict leaseId)
          else Inr (map (\<lambda>x. if lease_id x = leaseId \<and> lease_status x = ACTIVE
                               then x\<lparr>lease_status := CANCELLED\<rparr> else x) store))"

text \<open>
  Modelled from the spec: the expiry sweep of section 4.1. Every ACTIVE lease whose expiry
  timestamp the current time has reached becomes EXPIRED.
\<close>

definition expirySweep :: "int \<Rightarrow> Lease list \<Rightarrow> Lease list" where
  "expirySweep now store =
     map (\<lambda>l. if lease_status l = ACTIVE \<and> lease_expiresAt l \<le> now
               then l\<lparr>lease_status := EXPIRED\<rparr> else l) store"

text \<open>
  Modelled from the spec: the requests the manager serves. Section 5 serialises the
  operations on one entity, so concurrent callers amount to some sequence of requests;
  a rejected request leaves the store as it was.
\<close>

datatype leaseRequest =
    CreateLease int jsstring jsstring int
  | CancelLease nat jsstring
  | ExpirySweep int

fun serve :: "leaseRequest \<Rightarrow> Lease list \<Rightarrow> Lease list" where
  "serve (CreateLease now productId holderId durationMinutes) store =
     (case createLease now productId holderId durationMinutes store of
        Inl err \<Rightarrow> store
      | Inr (lease, store') \<Rightarrow> store')"
| "serve (CancelLease leaseId requesterId) store =
     (case cancelLease leaseId requesterId store of
        Inl err \<Rightarrow> store
      | Inr store' \<Rightarrow> store')"
| "serve (ExpirySweep now) store = expirySweep now store"

fun serveAll :: "leaseRequest list \<Rightarrow> Lease list \<Rightarrow> Lease list" where
  "serveAll [] store = store"
| "serveAll (r # rs) store = serveAll rs (serve r store)"

text \<open>Modelled from the spec: the invariant of section 3, at most one ACTIVE lease per product.\<close>

definition oneActivePerProduct :: "Lease list \<Rightarrow> bool" where
  "oneActivePerProduct store \<longleftrightarrow> (\<forall>p. length (activeLeases p store) \<le> 1)"

section \<open>The session manager behind the chat endpoints\<close>

text \<open>
  Modelled from the spec: the Conversation Session and Message data model of section 3.
  The session manager runs on the server; this repository holds only its callers
  (\<open>useCreateChat\<close>, the socket hook), so sessions, their store and the operations below
  follow the spec's words. An id is opaque; the store builds it from its length.
\<close>

record StoredMessage =
  sm_id :: nat
  sm_sender :: jsstring
  sm_receiver :: jsstring
  sm_body :: jsstring
  sm_createdAt :: int
  sm_delivered :: bool
  sm_read :: bool

record Session =
  sess_id :: jsstring
  sess_initiator :: jsstring
  sess_counterparty :: jsstring
  sess_product :: "jsstring option"
  sess_createdAt :: int
  sess_expiresAt :: int
  sess_lastMessage :: "jsstring option"
  sess_lastMessageAt :: "int option"
  sess_unreadInitiator :: nat
  sess_unreadCounterparty :: nat
  sess_log :: "StoredMessage list"

datatype sessionError = SessionInvalidArgument | SessionForbidden | SessionNotFound | SessionGone




text \<open>
  Modelled from the spec: \<open>postMessage(sessionId, senderId, body)\<close> of section 4.2 behind
  the facade of section 4.4. An empty body is an invalid argument, an unknown id is not
  found, a sender outside the session is forbidden, and the post is rejected with Gone
  once the current time exceeds the retention expiry. An accepted message is appended
  to the log together with the last-message fields and the receiver's unread counter.
\<close>

definition postMessage ::
  "int \<Rightarrow> jsstring \<Rightarrow> jsstring \<Rightarrow> jsstring \<Rightarrow> Session list
     \<Rightarrow> sessionError + StoredMessage \<times> Session list" where
  "postMessage now sessionId senderId body store =
     (if body = [] then Inl SessionInvalidArgument
      else case find (\<lambda>s. sess_id s = sessionId) store of
             None \<Rightarrow> Inl SessionNotFound
           | Some s \<Rightarrow>
               if senderId \<noteq> sess_initiator s \<and> senderId \<noteq> sess_counterparty s
               then Inl SessionForbidden
               else if sess_expiresAt s < now then Inl SessionGone
               else
                 let toCounterparty = (senderId = sess_initiator s);
                     message = \<lparr>sm_id = length (sess_log s), sm_sender = senderId,
                       sm_receiver = (if toCounterparty then sess_counterparty s
                                      else sess_initiator s),
                       sm_body = body, sm_createdAt = now, sm_delivered = False,
                       sm_read = False\<rparr>;
                     updated = s\<lparr>sess_log := sess_log s @ [message],
                       sess_lastMessage := Some body, sess_lastMessageAt := Some now,
                       sess_unreadInitiator :=
                         (if toCounterparty then sess_unreadInitiator s
                          else Suc (sess_unreadInitiator s)),
                       sess_unreadCounterparty :=
                         (if toCounterparty then Suc (sess_unreadCounterparty s)
                          else sess_unreadCounterparty s)\<rparr>
                 in Inr (message, map (\<lambda>x. if sess_id x = sessionId then updated else x) store))"

text \<open>
  Modelled from the spec: the live channel of section 6. The events of one client arrive
  at the server at time \<open>now\<close> under the principal \<open>userId\<close>; each \<open>send_message\<close> is a
  post, answered by the stored message or by the error, and the typing and room signals
  store nothing. The result lists the answers to the posts, in order, and the store.
\<close>

fun deliver ::
  "int \<Rightarrow> jsstring \<Rightarrow> socketEvent list \<Rightarrow> Session list
     \<Rightarrow> (sessionError + StoredMessage) list \<times> Session list" where
  "deliver now userId [] store = ([], store)"
| "deliver now userId (send_message cid body # events) store =
     (case postMessage now cid userId body store of
        Inl err \<Rightarrow>
          (Inl err # fst (deliver now userId events store), snd (deliver now userId events store))
      | Inr (message, store') \<Rightarrow>
          (Inr message # fst (deliver now userId events store'),
           snd (deliver now userId events store')))"
| "deliver now userId (event # events) store = deliver now userId events store"


text \<open>
  A post of the principal \<open>userId\<close> through the chat window: the window was last
  rendered at \<open>renderNow\<close>, the send button is pressed and the emitted events reach the
  server at \<open>now\<close>.
\<close>

definition postThroughWindow ::
  "dateParser \<Rightarrow> int \<Rightarrow> int \<Rightarrow> jsstring \<Rightarrow> Chat \<Rightarrow> bool \<Rightarrow> bool \<Rightarrow> bool \<Rightarrow> bool \<Rightarrow> jsstring
     \<Rightarrow> Session list \<Rightarrow> (sessionError + StoredMessage) list \<times> Session list" where
  "postThroughWindow parse renderNow now userId chat socket isConnected isTyping isSending
       messageText store =
     deliver now userId
       (ChatWindow_post parse renderNow chat socket (Some (chat_id chat)) isConnected isTyping
          isSending messageText)
       store"

text \<open>
  Modelled from the spec: the session as the client receives it (\<open>Chat\<close> of the hook),
  with the timestamps written by the formatter \<open>fmt\<close> of the server's runtime.
\<close>

definition chatOfSession :: "(int \<Rightarrow> jsstring) \<Rightarrow> Session \<Rightarrow> Chat" where
  "chatOfSession fmt s =
     \<lparr>chat_id = sess_id s, chat_buyerId = sess_initiator s, chat_sellerId = sess_counterparty s,
      chat_productId = sess_product s, chat_productTitle = None, chat_productImage = None,
      chat_lastMessage = sess_lastMessage s,
      chat_lastMessageAt = map_option fmt (sess_lastMessageAt s),
      chat_expiresAt = fmt (sess_expiresAt s),
      chat_participants = [], chat_unreadCount = None, chat_createdAt = fmt (sess_createdAt s)\<rparr>"






section \<open>Sample inputs\<close>

text \<open>
  A parser instance for evaluating the functions on concrete inputs: three ISO-8601
  instants with the time values ECMAScript assigns to them, every other string unparsable.
\<close>

definition isoParser :: dateParser where
  "isoParser s =
     (if s = js ''1970-01-01T00:00:00.000Z'' then Some 0
      else if s = js ''1970-01-01T00:00:01.000Z'' then Some 1000
      else if s = js ''1970-01-08T00:00:00.000Z'' then Some 604800000
      else None)"

text \<open>
  A case mapping for evaluating on concrete inputs: on strings of ASCII code units it is
  what \<open>toUpperCase\<close> yields, a to z mapped to A to Z and the rest kept.
\<close>

definition asciiUpperCase :: caseMapper where
  "asciiUpperCase s = map (\<lambda>c. if 97 \<le> c \<and> c \<le> 122 then c - 32 else c) s"

definition objectId1 :: jsstring where
  "objectId1 = js ''507f1f77bcf86cd799439011''"

definition reservationJson :: "jsstring \<Rightarrow> jsstring \<Rightarrow> jsvalue" where
  "reservationJson ident expiresAt =
     JObj [(js ''_id'', JStr ident), (js ''productId'', JStr (js ''p1'')),
           (js ''userId'', JStr (js ''u1'')), (js ''status'', JStr (js ''ACTIVE'')),
           (js ''expiresAt'', JStr expiresAt)]"

definition networkError :: apiError where
  "networkError = \<lparr>err_status = 0,
     err_message = js ''Network error. Please check your connection.'', err_data = None\<rparr>"

definition message1 :: Message where
  "message1 = \<lparr>msg_id = js ''m1'', msg_chatId = js ''c1'', msg_senderId = js ''u1'',
     msg_senderName = js ''Ann'', msg_senderAvatar = None,
     msg_receiverId = js ''u2'', msg_message = js ''hello'',
     msg_createdAt = js ''1970-01-01T00:00:00.000Z'', msg_delivered = True, msg_read = False\<rparr>"

definition message2 :: Message where
  "message2 = \<lparr>msg_id = js ''m2'', msg_chatId = js ''c1'', msg_senderId = js ''u1'',
     msg_senderName = js ''Ann'', msg_senderAvatar = None,
     msg_receiverId = js ''u2'', msg_message = js ''are you there?'',
     msg_createdAt = js ''1970-01-01T00:00:01.000Z'', msg_delivered = True, msg_read = False\<rparr>"

definition sampleRequests :: "leaseRequest list" where
  "sampleRequests = [CreateLease 0 (js ''p1'') (js ''u1'') 30,
     CreateLease 5 (js ''p1'') (js ''u2'') 60, ExpirySweep 10]"

definition sampleLease :: Lease where
  "sampleLease = \<lparr>lease_id = 0, lease_product = js ''p1'', lease_holder = js ''u1'',
     lease_createdAt = 0, lease_durationMinutes = 30, lease_expiresAt = 1800000,
     lease_status = ACTIVE\<rparr>"

text \<open>
  A timestamp formatter for evaluating on concrete inputs: the ISO-8601 text of the
  three instants \<open>isoParser\<close> reads.
\<close>

definition isoFormat :: "int \<Rightarrow> jsstring" where
  "isoFormat t =
     (if t = 0 then js ''1970-01-01T00:00:00.000Z''
      else if t = 1000 then js ''1970-01-01T00:00:01.000Z''
      else if t = 604800000 then js ''1970-01-08T00:00:00.000Z''
      else js ''Invalid Date'')"

definition sampleSession :: Session where
  "sampleSession = \<lparr>sess_id = js ''s0'', sess_initiator = js ''u1'', sess_counterparty = js ''u2'',
     sess_product = Some (js ''p1''), sess_createdAt = 0, sess_expiresAt = 604800000,
     sess_lastMessage = None, sess_lastMessageAt = None, sess_unreadInitiator = 0,
     sess_unreadCounterparty = 0, sess_log = []\<rparr>"


section \<open>Properties\<close>

lemma js_simps:
  "js [] = []"
  "js (c # cs) = of_char c # js cs"
  by (simp_all add: js_def)

subsection \<open>Strings and the date parser\<close>

lemma dropWhile_all: "dropWhile P xs = [] \<longleftrightarrow> list_all P xs"
  by (simp add: dropWhile_eq_Nil_conv list_all_iff)

lemma trim_Nil_iff: "trim s = [] \<longleftrightarrow> list_all isWhiteSpace s"
proof
  assume "trim s = []"
  then have "\<forall>x \<in> set (dropWhile isWhiteSpace s). isWhiteSpace x"
    by (simp add: trim_def dropWhile_eq_Nil_conv)
  then have "dropWhile isWhiteSpace s = []"
    using hd_dropWhile [of isWhiteSpace s] hd_in_set [of "dropWhile isWhiteSpace s"] by blast
  then show "list_all isWhiteSpace s"
    by (simp add: list_all_iff)
next
  assume "list_all isWhiteSpace s"
  then have "\<forall>x \<in> set s. isWhiteSpace x"
    by (simp add: list_all_iff)
  then show "trim s = []"
    by (auto simp: trim_def dest: set_dropWhileD)
qed

lemma trim_hd: "trim s \<noteq> [] \<Longrightarrow> \<not> isWhiteSpace (hd (trim s))"
proof -
  assume ne: "trim s \<noteq> []"
  let ?a = "dropWhile isWhiteSpace s"
  let ?b = "dropWhile isWhiteSpace (rev ?a)"
  from ne have b: "?b \<noteq> []" by (simp add: trim_def)
  then have a: "?a \<noteq> []"
    by (metis dropWhile.simps(1) rev.simps(1))
  have "rev ?a = takeWhile isWhiteSpace (rev ?a) @ ?b" by simp
  then have "?a = rev ?b @ rev (takeWhile isWhiteSpace (rev ?a))"
    by (metis rev_append rev_rev_ident)
  with b have "hd ?a = hd (rev ?b)"
    by (metis hd_append rev_is_Nil_conv)
  moreover have "\<not> isWhiteSpace (hd ?a)" using a hd_dropWhile by blast
  ultimately show ?thesis by (simp add: trim_def)
qed

lemma trim_last: "trim s \<noteq> [] \<Longrightarrow> \<not> isWhiteSpace (last (trim s))"
proof -
  assume ne: "trim s \<noteq> []"
  let ?b = "dropWhile isWhiteSpace (rev (dropWhile isWhiteSpace s))"
  from ne have b: "?b \<noteq> []" by (simp add: trim_def)
  then have "\<not> isWhiteSpace (hd ?b)" using hd_dropWhile by blast
  with b show ?thesis by (simp add: trim_def last_rev)
qed

lemma trim_fixed:
  assumes "u = [] \<or> (\<not> isWhiteSpace (hd u) \<and> \<not> isWhiteSpace (last u))"
  shows "trim u = u"
proof (cases "u = []")
  case True
  then show ?thesis by (simp add: trim_def)
next
  case False
  with assms have h: "\<not> isWhiteSpace (hd u)" and l: "\<not> isWhiteSpace (last u)" by auto
  from False h have 1: "dropWhile isWhiteSpace u = u"
    by (simp add: dropWhile_eq_self_iff)
  from False l have 2: "dropWhile isWhiteSpace (rev u) = rev u"
    by (simp add: dropWhile_eq_self_iff hd_rev)
  show ?thesis by (simp add: trim_def 1 2)
qed

lemma trim_idem: "trim (trim s) = trim s"
  using trim_fixed [of "trim s"] trim_hd [of s] trim_last [of s] by blast

lemma isReservationExpired_valid:
  "s \<noteq> [] \<Longrightarrow> parse s = Some t \<Longrightarrow> isReservationExpired parse now s \<longleftrightarrow> t < now"
  by (simp add: isReservationExpired_def)

lemma isChatExpired_valid:
  "s \<noteq> [] \<Longrightarrow> parse s = Some t \<Longrightarrow> isChatExpired parse now s \<longleftrightarrow> t < now"
  by (simp add: isChatExpired_def)

lemma iso_second: "isoParser (js ''1970-01-01T00:00:01.000Z'') = Some 1000"
  by (simp add: isoParser_def js_simps)

lemma iso_week: "isoParser (js ''1970-01-08T00:00:00.000Z'') = Some 604800000"
  by (simp add: isoParser_def js_simps)

lemma iso_bad: "isoParser (js ''soon'') = None"
  by (simp add: isoParser_def js_simps)

lemma js_nonempty: "js (c # cs) \<noteq> []"
  by (simp add: js_simps)

lemma upper_ACTIVE: "asciiUpperCase (js ''ACTIVE'') = js ''ACTIVE''"
  by (simp add: asciiUpperCase_def js_simps)

subsection \<open>Expiry of reservations and chats\<close>

text \<open>
  C10. For a string that is empty or that the date parser rejects, the two expiry checks
  answer in opposite directions: the reservation counts as expired, the chat as live.
\<close>

theorem missing_expiry_opposite:
  assumes "s = [] \<or> parse s = None"
  shows "isReservationExpired parse now s = True \<and> isChatExpired parse now s = False"
  using assms by (auto simp: isReservationExpired_def isChatExpired_def)

theorem missing_expiry_opposite_witness:
  "isoParser (js ''soon'') = None
   \<and> isReservationExpired isoParser 5 (js ''soon'') = True
   \<and> isChatExpired isoParser 5 (js ''soon'') = False"
proof -
  have h: "isoParser (js ''soon'') = None"
    by (simp add: isoParser_def js_simps)
  from missing_expiry_opposite [of "js ''soon''" isoParser 5] h show ?thesis
    by simp
qed

text \<open>
  C2. At the expiry instant itself the lazy check does not yet report the reservation
  as expired: \<open>isReservationExpired\<close> is false and \<open>isReservationActive\<close> is true for
  a reservation whose stored status is ACTIVE, while \<open>getTimeRemaining\<close> in the same file
  already yields 0, the timer counts the reservation as expired and
  \<open>formatTimeRemaining\<close> prints "Expired". For a valid date the check holds exactly when
  the expiry lies strictly before the current time (\<open>isReservationExpired_valid\<close>).
\<close>

theorem reservation_expiry_boundary:
  "isReservationExpired isoParser 1000 (js ''1970-01-01T00:00:01.000Z'') = False
   \<and> isReservationActive asciiUpperCase isoParser 1000
        (Some \<lparr>res_id = js ''r1'', res_productId = js ''p1'', res_userId = js ''u1'',
               res_userName = None, res_reservedAt = js ''1970-01-01T00:00:00.000Z'',
               res_expiresAt = js ''1970-01-01T00:00:01.000Z'',
               res_status = js ''ACTIVE'', res_durationMinutes = 30\<rparr>) = True
   \<and> getTimeRemaining isoParser 1000 (js ''1970-01-01T00:00:01.000Z'') = 0
   \<and> ReservationTimer_isExpired isoParser 1000 (js ''1970-01-01T00:00:01.000Z'') = True
   \<and> formatTimeRemaining isoParser 1000 (js ''1970-01-01T00:00:01.000Z'') = js ''Expired''"
  by (simp add: isReservationExpired_def isReservationActive_def getTimeRemaining_def
      ReservationTimer_isExpired_def formatTimeRemaining_def iso_second upper_ACTIVE js_nonempty)

subsection \<open>The retention boundary of a chat\<close>

lemma ChatWindow_post_eq:
  "ChatWindow_post parse renderNow chat socket (Some cid) isConnected isTyping isSending messageText =
     (if ChatWindow_inputRendered parse renderNow chat \<and> trim messageText \<noteq> [] \<and> \<not> isSending
          \<and> isConnected \<and> socket \<and> cid \<noteq> []
      then (if isTyping then [stop_typing cid] else []) @ [send_message cid (trim messageText)]
      else [])"
  by (simp add: ChatWindow_post_def ChatWindow_handleSendMessage_def stopTyping_def
      sendMessage_def trim_idem Let_def)

lemma deliver_post:
  "deliver now userId ((if isTyping then [stop_typing cid] else []) @ [send_message cid body]) store =
     (case postMessage now cid userId body store of
        Inl err \<Rightarrow> ([Inl err], store)
      | Inr (message, store') \<Rightarrow> ([Inr message], store'))"
  by (simp split: sum.splits prod.splits)

lemma find_map_update:
  assumes "find P xs = Some x" and "P u"
  shows "find P (map (\<lambda>y. if P y then u else y) xs) = Some u"
  using assms by (induction xs) (auto split: if_splits)

lemma postMessage_gone:
  assumes "find (\<lambda>x. sess_id x = sess_id s) store = Some s"
    and "userId = sess_initiator s \<or> userId = sess_counterparty s"
    and "body \<noteq> []" and "sess_expiresAt s < now"
  shows "postMessage now (sess_id s) userId body store = Inl SessionGone"
  using assms by (auto simp: postMessage_def)

lemma postMessage_accepted:
  assumes f: "find (\<lambda>x. sess_id x = sess_id s) store = Some s"
    and u: "userId = sess_initiator s \<or> userId = sess_counterparty s"
    and b: "body \<noteq> []" and t: "now \<le> sess_expiresAt s"
  shows "\<exists>m store' s'. postMessage now (sess_id s) userId body store = Inr (m, store')
      \<and> sm_body m = body \<and> sm_sender m = userId \<and> sm_createdAt m = now
      \<and> find (\<lambda>x. sess_id x = sess_id s) store' = Some s' \<and> sess_log s' = sess_log s @ [m]"
proof -
  let ?m = "\<lparr>sm_id = length (sess_log s), sm_sender = userId,
      sm_receiver = (if userId = sess_initiator s then sess_counterparty s else sess_initiator s),
      sm_body = body, sm_createdAt = now, sm_delivered = False, sm_read = False\<rparr>"
  let ?u = "s\<lparr>sess_log := sess_log s @ [?m],
      sess_lastMessage := Some body, sess_lastMessageAt := Some now,
      sess_unreadInitiator :=
        (if userId = sess_initiator s then sess_unreadInitiator s
         else Suc (sess_unreadInitiator s)),
      sess_unreadCounterparty :=
        (if userId = sess_initiator s then Suc (sess_unreadCounterparty s)
         else sess_unreadCounterparty s)\<rparr>"
  let ?store = "map (\<lambda>x. if sess_id x = sess_id s then ?u else x) store"
  from u t have ok: "\<not> (userId \<noteq> sess_initiator s \<and> userId \<noteq> sess_counterparty s)"
    "\<not> sess_expiresAt s < now" by auto
  have p: "postMessage now (sess_id s) userId body store = Inr (?m, ?store)"
    unfolding postMessage_def using b f ok by (simp add: Let_def)
  have "sess_id ?u = sess_id s" by simp
  with f have "find (\<lambda>x. sess_id x = sess_id s) ?store = Some ?u"
    by (rule find_map_update)
  with p show ?thesis by simp
qed

lemma postThroughWindow_eq:
  "postThroughWindow parse renderNow now userId chat socket isConnected isTyping isSending
       messageText store =
     (if ChatWindow_inputRendered parse renderNow chat \<and> trim messageText \<noteq> [] \<and> \<not> isSending
          \<and> isConnected \<and> socket \<and> chat_id chat \<noteq> []
      then (case postMessage now (chat_id chat) userId (trim messageText) store of
              Inl err \<Rightarrow> ([Inl err], store)
            | Inr (message, store') \<Rightarrow> ([Inr message], store'))
      else ([], store))"
proof (cases "ChatWindow_inputRendered parse renderNow chat \<and> trim messageText \<noteq> []
    \<and> \<not> isSending \<and> isConnected \<and> socket \<and> chat_id chat \<noteq> []")
  case True
  then have e: "ChatWindow_post parse renderNow chat socket (Some (chat_id chat)) isConnected
      isTyping isSending messageText
      = (if isTyping then [stop_typing (chat_id chat)] else [])
        @ [send_message (chat_id chat) (trim messageText)]"
    by (simp add: ChatWindow_post_eq)
  show ?thesis
    unfolding postThroughWindow_def e deliver_post using True by simp
next
  case False
  then have e: "ChatWindow_post parse renderNow chat socket (Some (chat_id chat)) isConnected
      isTyping isSending messageText = []"
    by (simp add: ChatWindow_post_eq)
  show ?thesis
    unfolding postThroughWindow_def e using False by auto
qed

text \<open>
  C3. For a chat whose \<open>expiresAt\<close> is the valid date of its session's retention
  expiry, \<open>isChatExpired\<close> holds exactly when the current time is strictly greater
  than it. A post strictly after the expiry is rejected: a window rendered after the
  expiry shows no input and emits nothing, and whatever a window rendered earlier still
  emits is answered by the session manager with Gone, the store unchanged. A post
  strictly before the expiry, for instance one second before, is accepted: the window
  emits the trimmed message (after \<open>stop_typing\<close> when the typing flag is set) and the
  session manager appends it to the log.
\<close>

theorem chat_retention_boundary:
  assumes stored: "find (\<lambda>x. sess_id x = sess_id s) store = Some s"
    and member: "userId = sess_initiator s \<or> userId = sess_counterparty s"
    and ident: "sess_id s \<noteq> []"
    and chat: "chat = chatOfSession fmt s"
    and given: "chat_expiresAt chat \<noteq> []"
    and valid: "parse (chat_expiresAt chat) = Some (sess_expiresAt s)"
  shows "(isChatExpired parse now (chat_expiresAt chat) \<longleftrightarrow> sess_expiresAt s < now)
    \<and> (sess_expiresAt s < renderNow \<longrightarrow>
          \<not> ChatWindow_inputRendered parse renderNow chat
          \<and> ChatWindow_post parse renderNow chat socket chatId isConnected isTyping isSending
               messageText = [])
    \<and> (sess_expiresAt s < now \<longrightarrow>
          (\<forall>answer \<in> set (fst (postThroughWindow parse renderNow now userId chat socket
               isConnected isTyping isSending messageText store)). answer = Inl SessionGone)
          \<and> snd (postThroughWindow parse renderNow now userId chat socket isConnected isTyping
               isSending messageText store) = store)
    \<and> (renderNow \<le> sess_expiresAt s \<and> sess_expiresAt s < now \<and> trim messageText \<noteq> [] \<longrightarrow>
          postThroughWindow parse renderNow now userId chat True True isTyping False messageText
            store = ([Inl SessionGone], store))
    \<and> (renderNow \<le> now \<and> now < sess_expiresAt s \<and> trim messageText \<noteq> [] \<longrightarrow>
          ChatWindow_post parse renderNow chat True (Some (chat_id chat)) True isTyping False
            messageText
            = (if isTyping then [stop_typing (chat_id chat)] else [])
              @ [send_message (chat_id chat) (trim messageText)]
          \<and> (\<exists>m store' s'.
                postThroughWindow parse renderNow now userId chat True True isTyping False
                  messageText store = ([Inr m], store')
                \<and> sm_body m = trim messageText \<and> sm_sender m = userId \<and> sm_createdAt m = now
                \<and> find (\<lambda>x. sess_id x = sess_id s) store' = Some s'
                \<and> sess_log s' = sess_log s @ [m]))
    \<and> (trim messageText \<noteq> [] \<longrightarrow>
          (\<exists>m store'.
                postThroughWindow parse (sess_expiresAt s - 1000) (sess_expiresAt s - 1000) userId
                  chat True True isTyping False messageText store = ([Inr m], store')
                \<and> sm_body m = trim messageText))"
proof -
  let ?t = "sess_expiresAt s"
  have cid: "chat_id chat = sess_id s" using chat by (simp add: chatOfSession_def)
  have gate: "isChatExpired parse n (chat_expiresAt chat) \<longleftrightarrow> ?t < n" for n
    using given valid by (rule isChatExpired_valid)
  have shown: "ChatWindow_inputRendered parse n chat \<longleftrightarrow> n \<le> ?t" for n
    using gate [of n] by (auto simp: ChatWindow_inputRendered_def)
  have hidden: "?t < renderNow \<Longrightarrow>
      ChatWindow_post parse renderNow chat socket chatId isConnected isTyping isSending
        messageText = []"
    using shown [of renderNow] by (simp add: ChatWindow_post_def)
  have gone: "?t < now \<Longrightarrow> trim messageText \<noteq> [] \<Longrightarrow>
      postMessage now (chat_id chat) userId (trim messageText) store = Inl SessionGone"
    unfolding cid using stored member by (rule postMessage_gone)
  have late: "?t < now \<Longrightarrow>
      (\<forall>answer \<in> set (fst (postThroughWindow parse renderNow now userId chat socket
           isConnected isTyping isSending messageText store)). answer = Inl SessionGone)
      \<and> snd (postThroughWindow parse renderNow now userId chat socket isConnected isTyping
           isSending messageText store) = store"
    using gone by (simp add: postThroughWindow_eq)
  have stale: "renderNow \<le> ?t \<Longrightarrow> ?t < now \<Longrightarrow> trim messageText \<noteq> [] \<Longrightarrow>
      postThroughWindow parse renderNow now userId chat True True isTyping False messageText
        store = ([Inl SessionGone], store)"
    using gone shown [of renderNow] ident by (simp add: postThroughWindow_eq cid)
  have accepted: "\<exists>m store' s'.
        postThroughWindow parse r n userId chat True True isTyping False messageText store
          = ([Inr m], store')
        \<and> sm_body m = trim messageText \<and> sm_sender m = userId \<and> sm_createdAt m = n
        \<and> find (\<lambda>x. sess_id x = sess_id s) store' = Some s'
        \<and> sess_log s' = sess_log s @ [m]"
    if "r \<le> n" and "n < ?t" and ne: "trim messageText \<noteq> []" for r n
  proof -
    from that have "n \<le> ?t" by simp
    from postMessage_accepted [OF stored member ne this]
    obtain m store' s' where
      "postMessage n (sess_id s) userId (trim messageText) store = Inr (m, store')"
      "sm_body m = trim messageText" "sm_sender m = userId" "sm_createdAt m = n"
      "find (\<lambda>x. sess_id x = sess_id s) store' = Some s'" "sess_log s' = sess_log s @ [m]"
      by blast
    moreover from that have "ChatWindow_inputRendered parse r chat"
      using shown [of r] by simp
    ultimately show ?thesis
      using ne ident by (simp add: postThroughWindow_eq cid)
  qed
  have emitted: "renderNow \<le> now \<Longrightarrow> now < ?t \<Longrightarrow> trim messageText \<noteq> [] \<Longrightarrow>
      ChatWindow_post parse renderNow chat True (Some (chat_id chat)) True isTyping False
        messageText
        = (if isTyping then [stop_typing (chat_id chat)] else [])
          @ [send_message (chat_id chat) (trim messageText)]"
    using shown [of renderNow] ident by (simp add: ChatWindow_post_eq cid)
  have second: "trim messageText \<noteq> [] \<Longrightarrow>
      \<exists>m store'. postThroughWindow parse (?t - 1000) (?t - 1000) userId chat True True isTyping
          False messageText store = ([Inr m], store')
        \<and> sm_body m = trim messageText"
    using accepted [of "?t - 1000" "?t - 1000"] by auto
  show ?thesis
    using gate [of now] shown [of renderNow] hidden late stale accepted [of renderNow now]
      emitted second
    by (intro conjI impI) (simp_all only: simp_thms, blast+)
qed

lemma sampleSession_found:
  "find (\<lambda>x. sess_id x = sess_id sampleSession) [sampleSession] = Some sampleSession"
  by simp

lemma sampleSession_chat:
  "chat_id (chatOfSession isoFormat sampleSession) = js ''s0''"
  "chat_expiresAt (chatOfSession isoFormat sampleSession) = js ''1970-01-08T00:00:00.000Z''"
  by (simp_all add: chatOfSession_def sampleSession_def isoFormat_def)

lemma trim_hello_padded: "trim (js '' hello '') = js ''hello''"
  by (simp add: trim_def js_simps isWhiteSpace_def)

theorem chat_retention_boundary_witness:
  "find (\<lambda>x. sess_id x = sess_id sampleSession) [sampleSession] = Some sampleSession
   \<and> isoParser (chat_expiresAt (chatOfSession isoFormat sampleSession))
        = Some (sess_expiresAt sampleSession)
   \<and> isChatExpired isoParser 604800001 (chat_expiresAt (chatOfSession isoFormat sampleSession))
   \<and> ChatWindow_post isoParser 604800001 (chatOfSession isoFormat sampleSession) True
        (Some (js ''s0'')) True True False (js '' hello '') = []
   \<and> postThroughWindow isoParser 604799000 604800001 (js ''u1'')
        (chatOfSession isoFormat sampleSession) True True True False (js '' hello '')
        [sampleSession] = ([Inl SessionGone], [sampleSession])
   \<and> ChatWindow_post isoParser 604799000 (chatOfSession isoFormat sampleSession) True
        (Some (js ''s0'')) True True False (js '' hello '')
        = [stop_typing (js ''s0''), send_message (js ''s0'') (js ''hello'')]"
proof -
  let ?chat = "chatOfSession isoFormat sampleSession"
  have member: "js ''u1'' = sess_initiator sampleSession \<or> js ''u1'' = sess_counterparty sampleSession"
    by (simp add: sampleSession_def)
  have ident: "sess_id sampleSession \<noteq> []"
    by (simp add: sampleSession_def js_nonempty)
  have given: "chat_expiresAt ?chat \<noteq> []"
    by (simp add: sampleSession_chat js_nonempty)
  have expiry: "sess_expiresAt sampleSession = 604800000"
    by (simp add: sampleSession_def)
  have valid: "isoParser (chat_expiresAt ?chat) = Some (sess_expiresAt sampleSession)"
    by (simp add: sampleSession_chat iso_week expiry)
  note t = chat_retention_boundary [where s = sampleSession and store = "[sampleSession]"
      and userId = "js ''u1''" and chat = "chatOfSession isoFormat sampleSession"
      and fmt = isoFormat and parse = isoParser
      and socket = True and isConnected = True and isTyping = True and isSending = False
      and messageText = "js '' hello ''" and chatId = "Some (js ''s0'')",
      OF sampleSession_found member ident refl given valid]
  have ne: "trim (js '' hello '') \<noteq> []"
    by (simp add: trim_hello_padded js_nonempty)
  have after: "sess_expiresAt sampleSession < 604800001" by (simp add: expiry)
  have stale: "(604799000::int) \<le> sess_expiresAt sampleSession
      \<and> sess_expiresAt sampleSession < 604800001 \<and> trim (js '' hello '') \<noteq> []"
    using ne by (simp add: expiry)
  have before: "(604799000::int) \<le> 604799000 \<and> 604799000 < sess_expiresAt sampleSession
      \<and> trim (js '' hello '') \<noteq> []"
    using ne by (simp add: expiry)
  from t [where now = 604800001 and renderNow = 604800001, THEN conjunct1] after
  have 1: "isChatExpired isoParser 604800001 (chat_expiresAt ?chat)" by simp
  from t [where now = 604800001 and renderNow = 604800001, THEN conjunct2, THEN conjunct1, THEN mp, OF after]
  have 2: "ChatWindow_post isoParser 604800001 ?chat True (Some (js ''s0'')) True True False
      (js '' hello '') = []" by simp
  note 3 = t [where now = 604800001 and renderNow = 604799000, THEN conjunct2, THEN conjunct2, THEN conjunct2,
      THEN conjunct1, THEN mp, OF stale]
  from t [where now = 604799000 and renderNow = 604799000, THEN conjunct2, THEN conjunct2, THEN conjunct2,
      THEN conjunct2, THEN conjunct1, THEN mp, OF before, THEN conjunct1]
  have 4: "ChatWindow_post isoParser 604799000 ?chat True (Some (js ''s0'')) True True False
      (js '' hello '') = [stop_typing (js ''s0''), send_message (js ''s0'') (js ''hello'')]"
    by (simp add: sampleSession_chat trim_hello_padded)
  from sampleSession_found valid 1 2 3 4 show ?thesis
    by (intro conjI)
qed

subsection \<open>The message cache\<close>

lemma handleReceiveMessage_Some:
  "handleReceiveMessage m (Some L) =
     Some (if msg_id m \<in> msg_id ` set L then L else L @ [m])"
  by (auto simp: handleReceiveMessage_def list_ex_iff image_iff)

lemma handleReceiveMessage_distinct:
  "distinctIds cache \<Longrightarrow> distinctIds (handleReceiveMessage m cache)"
  by (auto simp: distinctIds_def handleReceiveMessage_def list_ex_iff split: option.splits)

lemma receiveAll_distinct:
  "distinctIds cache \<Longrightarrow> distinctIds (receiveAll ms cache)"
  by (induction ms arbitrary: cache) (simp_all add: handleReceiveMessage_distinct)

lemma handleReceiveMessage_extends:
  "\<exists>zs. handleReceiveMessage m (Some L) = Some (L @ zs)"
  by (simp add: handleReceiveMessage_def)

lemma receiveAll_extends:
  "\<exists>zs. receiveAll ms (Some L) = Some (L @ zs)"
proof (induction ms arbitrary: L)
  case Nil
  then show ?case by simp
next
  case (Cons m ms)
  obtain ys where ys: "handleReceiveMessage m (Some L) = Some (L @ ys)"
    using handleReceiveMessage_extends by blast
  obtain zs where "receiveAll ms (Some (L @ ys)) = Some ((L @ ys) @ zs)"
    using Cons.IH by blast
  with ys show ?case by simp
qed

text \<open>
  C5. The receive handler leaves the cached list as it is when it already holds a message
  with the incoming id, and appends the incoming message at the end otherwise. So a cache
  with pairwise distinct ids keeps them distinct, the cache built from any sequence of
  events holds every id at most once, and the list before an event is a prefix of the list
  after it.
\<close>

theorem receive_at_most_once_in_order:
  "handleReceiveMessage m (Some L) = Some (if msg_id m \<in> msg_id ` set L then L else L @ [m])
   \<and> (distinctIds cache \<longrightarrow> distinctIds (handleReceiveMessage m cache))
   \<and> distinctIds (receiveAll ms None)
   \<and> (\<exists>zs. receiveAll ms (Some L) = Some (L @ zs))"
proof -
  have "distinctIds None" by (simp add: distinctIds_def)
  then have "distinctIds (receiveAll ms None)" by (rule receiveAll_distinct)
  then show ?thesis
    using handleReceiveMessage_Some handleReceiveMessage_distinct receiveAll_extends by blast
qed

lemma ids12: "msg_id message1 \<noteq> msg_id message2"
  by (simp add: message1_def message2_def js_simps)

theorem receive_at_most_once_in_order_witness:
  "handleReceiveMessage message1 (Some [message1, message2]) = Some [message1, message2]
   \<and> handleReceiveMessage message2 (Some [message1]) = Some [message1, message2]
   \<and> distinctIds (Some [message1])
   \<and> distinctIds (handleReceiveMessage message2 (Some [message1]))
   \<and> receiveAll [message1, message2, message1] None = Some [message1, message2]"
proof -
  have d: "distinctIds (Some [message1])" by (simp add: distinctIds_def)
  have r: "receiveAll [message1, message2, message1] None = Some [message1, message2]"
    using ids12 by (simp add: handleReceiveMessage_def)
  from receive_at_most_once_in_order [of message1 "[message1, message2]" "Some [message1]" "[]"]
    receive_at_most_once_in_order [of message2 "[message1]" "Some [message1]" "[]"] d r ids12
  show ?thesis
    by (simp add: image_iff distinctIds_def)
qed

subsection \<open>Creating a reservation\<close>

text \<open>
  C6. The create-reservation mutation validates its input before any request exists: a
  product id that is not a string of 24 hexadecimal digits, or a duration outside 30, 60,
  120 and 1440, makes it throw an error; an input passing both checks yields the POST to
  \<open>/reservations\<close> carrying the input.
\<close>

theorem createReservation_validates_locally:
  "(\<not> isValidObjectId (crd_productId d) \<or> crd_durationMinutes d \<notin> {30, 60, 120, 1440}
      \<longrightarrow> (\<exists>msg. useCreateReservation_mutationFn d = Inl (Error msg)))
   \<and> (isValidObjectId (crd_productId d) \<and> crd_durationMinutes d \<in> {30, 60, 120, 1440}
      \<longrightarrow> useCreateReservation_mutationFn d
            = Inr \<lparr>reqMethod = POST, reqPath = js ''/reservations'', reqBody = d\<rparr>)
   \<and> (isValidObjectId (crd_productId d)
        \<longleftrightarrow> length (crd_productId d) = 24 \<and> (\<forall>c \<in> set (crd_productId d). isHexDigit c))"
  by (auto simp: useCreateReservation_mutationFn_def isValidObjectId_def list_all_iff)

lemma objectId1_valid: "isValidObjectId objectId1"
  by (simp add: objectId1_def isValidObjectId_def isHexDigit_def js_simps)

lemma objectId_short_invalid: "\<not> isValidObjectId (js ''507f1f77'')"
  by (simp add: isValidObjectId_def js_simps)

lemma objectId_nonhex_invalid: "\<not> isValidObjectId (js ''507f1f77bcf86cd79943901g'')"
  by (simp add: isValidObjectId_def isHexDigit_def js_simps)

theorem createReservation_validates_locally_witness:
  "useCreateReservation_mutationFn \<lparr>crd_productId = objectId1, crd_durationMinutes = 60\<rparr>
     = Inr \<lparr>reqMethod = POST, reqPath = js ''/reservations'',
            reqBody = \<lparr>crd_productId = objectId1, crd_durationMinutes = 60\<rparr>\<rparr>
   \<and> (\<exists>msg. useCreateReservation_mutationFn \<lparr>crd_productId = objectId1, crd_durationMinutes = 45\<rparr>
          = Inl (Error msg))
   \<and> (\<exists>msg. useCreateReservation_mutationFn
          \<lparr>crd_productId = js ''507f1f77bcf86cd79943901g'', crd_durationMinutes = 60\<rparr>
          = Inl (Error msg))"
  using createReservation_validates_locally [of "\<lparr>crd_productId = objectId1, crd_durationMinutes = 60\<rparr>"]
    createReservation_validates_locally [of "\<lparr>crd_productId = objectId1, crd_durationMinutes = 45\<rparr>"]
    createReservation_validates_locally
      [of "\<lparr>crd_productId = js ''507f1f77bcf86cd79943901g'', crd_durationMinutes = 60\<rparr>"]
    objectId1_valid objectId_nonhex_invalid
  by simp

subsection \<open>Sending a message\<close>

lemma sendMessage_eq:
  "sendMessage socket chatId isConnected message =
     (if socket \<and> isConnected \<and> chatId \<noteq> None \<and> chatId \<noteq> Some [] \<and> trim message \<noteq> []
      then [send_message (the chatId) (trim message)] else [])"
  by (cases chatId) (simp_all add: sendMessage_def)

lemma sendMessage_events:
  "e \<in> set (sendMessage socket chatId isConnected message) \<Longrightarrow>
     socket \<and> isConnected \<and> trim message \<noteq> [] \<and> e = send_message (the chatId) (trim message)"
  by (simp add: sendMessage_eq split: if_splits)

lemma stopTyping_events:
  "e \<in> set (snd (stopTyping socket chatId isConnected isTyping)) \<Longrightarrow> e = stop_typing (the chatId)"
  by (cases chatId) (simp_all add: stopTyping_def split: if_splits)

lemma ChatWindow_events:
  assumes "e \<in> set (snd (snd (ChatWindow_handleSendMessage socket chatId isConnected isTyping
      isSending message)))"
  shows "trim message \<noteq> []
    \<and> (e = stop_typing (the chatId) \<or> e = send_message (the chatId) (trim message))"
proof (cases "trim message = [] \<or> isSending \<or> \<not> isConnected")
  case True
  with assms show ?thesis by (simp add: ChatWindow_handleSendMessage_def)
next
  case False
  with assms have "e \<in> set (snd (stopTyping socket chatId isConnected isTyping))
      \<or> e \<in> set (sendMessage socket chatId isConnected (trim message))"
    by (simp add: ChatWindow_handleSendMessage_def Let_def)
  with False show ?thesis
    using stopTyping_events [of e socket chatId isConnected isTyping]
      sendMessage_events [of e socket chatId isConnected "trim message"]
    by (auto simp: trim_idem)
qed

text \<open>
  C7. \<open>sendMessage\<close> emits a \<open>send_message\<close> event only when the socket exists and is
  connected, a chat id is present and the trimmed body is non-empty; the emitted body is
  the trimmed input. For an empty or whitespace-only string it emits nothing, and every
  event leaving the chat window's send handler carries a non-empty trimmed body.
\<close>

theorem sendMessage_never_empty:
  "sendMessage socket chatId isConnected message =
     (if socket \<and> isConnected \<and> chatId \<noteq> None \<and> chatId \<noteq> Some [] \<and> trim message \<noteq> []
      then [send_message (the chatId) (trim message)] else [])
   \<and> (\<forall>cid body. send_message cid body \<in> set (sendMessage socket chatId isConnected message)
        \<longrightarrow> socket \<and> isConnected \<and> body = trim message \<and> body \<noteq> [])
   \<and> (list_all isWhiteSpace message \<longrightarrow> sendMessage socket chatId isConnected message = [])
   \<and> (\<forall>cid body. send_message cid body
          \<in> set (snd (snd (ChatWindow_handleSendMessage socket chatId isConnected isTyping
                  isSending message)))
        \<longrightarrow> body = trim message \<and> body \<noteq> [])"
proof (intro conjI allI impI)
  show "sendMessage socket chatId isConnected message =
     (if socket \<and> isConnected \<and> chatId \<noteq> None \<and> chatId \<noteq> Some [] \<and> trim message \<noteq> []
      then [send_message (the chatId) (trim message)] else [])"
    by (rule sendMessage_eq)
next
  fix cid body
  assume a: "send_message cid body \<in> set (sendMessage socket chatId isConnected message)"
  from sendMessage_events [OF a] show socket and isConnected and "body = trim message"
    and "body \<noteq> []" by simp_all
next
  assume "list_all isWhiteSpace message"
  then have "trim message = []" by (simp only: trim_Nil_iff)
  then show "sendMessage socket chatId isConnected message = []"
    by (simp add: sendMessage_eq)
next
  fix cid body
  assume a: "send_message cid body
     \<in> set (snd (snd (ChatWindow_handleSendMessage socket chatId isConnected isTyping
             isSending message)))"
  from ChatWindow_events [OF a] show "body = trim message" and "body \<noteq> []" by auto
qed

lemma trim_padded: "trim (js ''  hello '') = js ''hello''"
  by (simp add: trim_def js_simps isWhiteSpace_def)

lemma blank_all_white: "list_all isWhiteSpace (js '' '')"
  by (simp add: js_simps isWhiteSpace_def)

lemma trim_blank: "trim (js '' '') = []"
  by (simp add: trim_def js_simps isWhiteSpace_def)

theorem sendMessage_never_empty_witness:
  "sendMessage True (Some (js ''c1'')) True (js ''  hello '') = [send_message (js ''c1'') (js ''hello'')]
   \<and> list_all isWhiteSpace (js '' '')
   \<and> sendMessage True (Some (js ''c1'')) True (js '' '') = []
   \<and> sendMessage True (Some (js ''c1'')) False (js ''  hello '') = []"
proof -
  note sent = sendMessage_never_empty
    [of True "Some (js ''c1'')" True "js ''  hello ''" False, THEN conjunct1]
  note blank = sendMessage_never_empty
    [of True "Some (js ''c1'')" True "js '' ''" False, THEN conjunct2, THEN conjunct2,
      THEN conjunct1, THEN mp, OF blank_all_white]
  note offline = sendMessage_never_empty
    [of True "Some (js ''c1'')" False "js ''  hello ''" False, THEN conjunct1]
  have 1: "sendMessage True (Some (js ''c1'')) True (js ''  hello '')
      = [send_message (js ''c1'') (js ''hello'')]"
    using sent by (simp add: trim_padded js_nonempty)
  have 2: "sendMessage True (Some (js ''c1'')) False (js ''  hello '') = []"
    using offline by simp
  from 1 blank_all_white blank 2 show ?thesis
    by (intro conjI)
qed

subsection \<open>Days until a chat expires\<close>

lemma ceiling_days_div:
  "\<lceil>real_of_int d / (1000 * 60 * 60 * 24)\<rceil> = - ((- d) div 86400000)"
  by linarith

text \<open>
  C8. For a valid \<open>expiresAt\<close>, \<open>getChatExpiryDays\<close> is the ceiling of the remaining
  time divided by 86400000 ms: at least 1 while the current time is before the expiry,
  at most 0 from the expiry on; it is 0 for an empty or unparsable \<open>expiresAt\<close>.
\<close>

theorem getChatExpiryDays_ceiling:
  "(s \<noteq> [] \<and> parse s = Some t \<longrightarrow>
      getChatExpiryDays parse now s = \<lceil>real_of_int (t - now) / 86400000\<rceil>
      \<and> getChatExpiryDays parse now s = - ((now - t) div 86400000)
      \<and> (now < t \<longrightarrow> 1 \<le> getChatExpiryDays parse now s)
      \<and> (t \<le> now \<longrightarrow> getChatExpiryDays parse now s \<le> 0))
   \<and> (s = [] \<or> parse s = None \<longrightarrow> getChatExpiryDays parse now s = 0)"
proof -
  have c: "\<lceil>real_of_int (t - now) / 86400000\<rceil> = - ((now - t) div 86400000)"
    using ceiling_days_div [of "t - now"] by simp
  have p: "now < t \<Longrightarrow> 1 \<le> - ((now - t) div 86400000)"
    by linarith
  have n: "t \<le> now \<Longrightarrow> - ((now - t) div 86400000) \<le> 0"
    by (simp add: pos_imp_zdiv_nonneg_iff)
  show ?thesis
    using c p n by (auto simp: getChatExpiryDays_def)
qed

theorem getChatExpiryDays_ceiling_witness:
  "js ''1970-01-08T00:00:00.000Z'' \<noteq> []
   \<and> isoParser (js ''1970-01-08T00:00:00.000Z'') = Some 604800000
   \<and> getChatExpiryDays isoParser 1 (js ''1970-01-08T00:00:00.000Z'') = 7
   \<and> getChatExpiryDays isoParser 604799999 (js ''1970-01-08T00:00:00.000Z'') = 1
   \<and> getChatExpiryDays isoParser 604800000 (js ''1970-01-08T00:00:00.000Z'') = 0
   \<and> getChatExpiryDays isoParser 700000000 (js ''1970-01-08T00:00:00.000Z'') = - 1
   \<and> isoParser (js ''soon'') = None
   \<and> getChatExpiryDays isoParser 1 (js ''soon'') = 0
   \<and> getChatExpiryDays isoParser 1 [] = 0"
  using getChatExpiryDays_ceiling [of "js ''1970-01-08T00:00:00.000Z''" isoParser 604800000 1]
    getChatExpiryDays_ceiling [of "js ''1970-01-08T00:00:00.000Z''" isoParser 604800000 604799999]
    getChatExpiryDays_ceiling [of "js ''1970-01-08T00:00:00.000Z''" isoParser 604800000 604800000]
    getChatExpiryDays_ceiling [of "js ''1970-01-08T00:00:00.000Z''" isoParser 604800000 700000000]
    getChatExpiryDays_ceiling [of "js ''soon''" isoParser 0 1]
    getChatExpiryDays_ceiling [of "[]" isoParser 0 1]
  by (simp add: iso_week iso_bad js_nonempty)

subsection \<open>The list of my reservations\<close>

lemma useMyReservations_try_valid:
  "useMyReservations_try parse fetched = Inr rs \<Longrightarrow> \<forall>r \<in> set rs. isValidReservation parse r"
  by (cases fetched) (auto simp: useMyReservations_try_def Let_def)

lemma useMyReservations_queryFn_total:
  "\<exists>rs. useMyReservations_queryFn parse fetched = Inr rs \<and> (\<forall>r \<in> set rs. isValidReservation parse r)"
proof (cases "useMyReservations_try parse fetched")
  case (Inl e)
  then show ?thesis by (simp add: useMyReservations_queryFn_def)
next
  case (Inr rs)
  then show ?thesis
    using useMyReservations_try_valid [OF Inr] by (simp add: useMyReservations_queryFn_def)
qed

lemma useMyReservations_queryFn_error:
  "useMyReservations_queryFn parse (Rejected e) = Inr []"
  by (simp add: useMyReservations_queryFn_def useMyReservations_try_def)

lemma useMyReservations_queryFn_shape:
  "\<not> isArray response \<Longrightarrow> \<not> isArray (getProp response (js ''reservations'')) \<Longrightarrow>
     useMyReservations_queryFn parse (Resolved response) = Inr []"
  by (simp add: useMyReservations_queryFn_def useMyReservations_try_def Let_def)

lemma typeof_string: "typeof v = T_string \<longleftrightarrow> (\<exists>s. v = JStr s)"
  by (cases v) simp_all

lemma isValidReservation_fields:
  assumes "isValidReservation parse r"
  shows "\<exists>i p u st e t. getProp r (js ''_id'') = JStr i \<and> getProp r (js ''productId'') = JStr p
      \<and> getProp r (js ''userId'') = JStr u \<and> getProp r (js ''status'') = JStr st
      \<and> getProp r (js ''expiresAt'') = JStr e \<and> parse e = Some t"
proof -
  from assms have ty: "typeof (getProp r (js ''_id'')) = T_string"
    "typeof (getProp r (js ''productId'')) = T_string"
    "typeof (getProp r (js ''userId'')) = T_string"
    "typeof (getProp r (js ''status'')) = T_string"
    "typeof (getProp r (js ''expiresAt'')) = T_string"
    by (simp_all add: isValidReservation_def split: if_splits)
  then obtain i p u st e where f: "getProp r (js ''_id'') = JStr i"
    "getProp r (js ''productId'') = JStr p" "getProp r (js ''userId'') = JStr u"
    "getProp r (js ''status'') = JStr st" "getProp r (js ''expiresAt'') = JStr e"
    unfolding typeof_string by blast
  from assms f(5) obtain t where "parse e = Some t"
    by (auto simp: isValidReservation_def split: if_splits option.splits)
  with f show ?thesis by blast
qed

text \<open>
  C9. The my-reservations query never throws: whatever the fetch does, it returns a list,
  and every element of that list satisfies \<open>isValidReservation\<close>, hence has string
  \<open>_id\<close>, \<open>productId\<close>, \<open>userId\<close> and \<open>status\<close> and an \<open>expiresAt\<close> the
  date parser accepts. The list is empty when the fetch fails and when the response is
  neither an array nor an object with an array under \<open>reservations\<close>.
\<close>

theorem useMyReservations_total_sanitizing:
  "(\<exists>rs. useMyReservations_queryFn parse fetched = Inr rs
       \<and> (\<forall>r \<in> set rs. isValidReservation parse r))
   \<and> useMyReservations_queryFn parse (Rejected e) = Inr []
   \<and> (\<not> isArray response \<and> \<not> isArray (getProp response (js ''reservations''))
        \<longrightarrow> useMyReservations_queryFn parse (Resolved response) = Inr [])
   \<and> (isValidReservation parse r \<longrightarrow>
        (\<exists>i p u st ex t. getProp r (js ''_id'') = JStr i \<and> getProp r (js ''productId'') = JStr p
          \<and> getProp r (js ''userId'') = JStr u \<and> getProp r (js ''status'') = JStr st
          \<and> getProp r (js ''expiresAt'') = JStr ex \<and> parse ex = Some t))"
  using useMyReservations_queryFn_total [of parse fetched]
    useMyReservations_queryFn_error [of parse e]
    useMyReservations_queryFn_shape [of response parse]
    isValidReservation_fields [of parse r]
  by blast

lemma reservationJson_week_valid:
  "isValidReservation isoParser (reservationJson (js ''r1'') (js ''1970-01-08T00:00:00.000Z''))"
  by (simp add: isValidReservation_def reservationJson_def isoParser_def js_simps)

lemma reservationJson_bad_invalid:
  "\<not> isValidReservation isoParser (reservationJson (js ''r2'') (js ''soon''))"
  by (simp add: isValidReservation_def reservationJson_def isoParser_def js_simps)

lemma junk_invalid: "\<not> isValidReservation isoParser (JStr (js ''junk''))"
  by (simp add: isValidReservation_def)

theorem useMyReservations_total_sanitizing_witness:
  "useMyReservations_queryFn isoParser
      (Resolved (JArr [reservationJson (js ''r1'') (js ''1970-01-08T00:00:00.000Z''),
                       reservationJson (js ''r2'') (js ''soon''), JStr (js ''junk'')]))
     = Inr [reservationJson (js ''r1'') (js ''1970-01-08T00:00:00.000Z'')]
   \<and> isValidReservation isoParser (reservationJson (js ''r1'') (js ''1970-01-08T00:00:00.000Z''))
   \<and> (\<exists>i p u st ex t.
         getProp (reservationJson (js ''r1'') (js ''1970-01-08T00:00:00.000Z'')) (js ''_id'') = JStr i
         \<and> getProp (reservationJson (js ''r1'') (js ''1970-01-08T00:00:00.000Z'')) (js ''productId'') = JStr p
         \<and> getProp (reservationJson (js ''r1'') (js ''1970-01-08T00:00:00.000Z'')) (js ''userId'') = JStr u
         \<and> getProp (reservationJson (js ''r1'') (js ''1970-01-08T00:00:00.000Z'')) (js ''status'') = JStr st
         \<and> getProp (reservationJson (js ''r1'') (js ''1970-01-08T00:00:00.000Z'')) (js ''expiresAt'') = JStr ex
         \<and> isoParser ex = Some t)
   \<and> useMyReservations_queryFn isoParser (Rejected networkError) = Inr []
   \<and> useMyReservations_queryFn isoParser (Resolved (JStr (js ''junk''))) = Inr []"
proof -
  let ?good = "reservationJson (js ''r1'') (js ''1970-01-08T00:00:00.000Z'')"
  let ?bad = "reservationJson (js ''r2'') (js ''soon'')"
  note t = useMyReservations_total_sanitizing
    [of isoParser "Resolved (JArr [?good, ?bad, JStr (js ''junk'')])" networkError
      "JStr (js ''junk'')" ?good]
  have 1: "useMyReservations_queryFn isoParser (Resolved (JArr [?good, ?bad, JStr (js ''junk'')]))
      = Inr [?good]"
    by (simp add: useMyReservations_queryFn_def useMyReservations_try_def
        reservationJson_week_valid reservationJson_bad_invalid junk_invalid)
  have shape: "\<not> isArray (JStr (js ''junk''))
      \<and> \<not> isArray (getProp (JStr (js ''junk'')) (js ''reservations''))"
    by simp
  from t [THEN conjunct2, THEN conjunct1]
  have 4: "useMyReservations_queryFn isoParser (Rejected networkError) = Inr []" .
  from t [THEN conjunct2, THEN conjunct2, THEN conjunct1, THEN mp, OF shape]
  have 5: "useMyReservations_queryFn isoParser (Resolved (JStr (js ''junk''))) = Inr []" .
  note 3 = t [THEN conjunct2, THEN conjunct2, THEN conjunct2, THEN mp,
      OF reservationJson_week_valid]
  from 1 reservationJson_week_valid 3 4 5 show ?thesis
    by (intro conjI)
qed

subsection \<open>Contacting a seller\<close>




lemma handle_conflict:
  assumes "trim message \<noteq> []"
    and "createChat \<lparr>ccd_buyerId = None, ccd_sellerId = Some sellerId, ccd_productId = productId\<rparr>
           = Rejected e"
    and "existingChatId e = Some cid"
  shows "snd (ContactSeller_handleSendMessage sellerId sellerName productId message createChat)
     = [setIsCreating True, navigate (js ''/chat/'' @ cid) (trim message),
        setIsCreating False, setShowDialog False, setMessage []]"
  using assms by (simp add: ContactSeller_handleSendMessage_def Let_def)

lemma handle_failed:
  assumes "trim message \<noteq> []"
    and "createChat \<lparr>ccd_buyerId = None, ccd_sellerId = Some sellerId, ccd_productId = productId\<rparr>
           = Rejected e"
    and "existingChatId e = None"
  shows "snd (ContactSeller_handleSendMessage sellerId sellerName productId message createChat)
     = [setIsCreating True, toast_error (js ''Failed to contact seller'') (Some (err_message e)),
        setIsCreating False, setShowDialog False, setMessage []]"
  using assms by (simp add: ContactSeller_handleSendMessage_def Let_def)

lemma existingChatId_Some:
  "existingChatId e = Some cid \<longleftrightarrow>
     err_status e = 409 \<and> cid \<noteq> [] \<and> (\<exists>d. err_data e = Some d \<and> ed_chatId d = Some cid)"
  by (auto simp: existingChatId_def split: option.splits)





lemma showNat_nonempty: "showNat n \<noteq> []"
  by (subst showNat.simps) simp
























subsection \<open>The lease manager\<close>

lemma activeLeases_append:
  "activeLeases p (xs @ ys) = activeLeases p xs @ activeLeases p ys"
  by (simp add: activeLeases_def)

lemma activeLeases_demote:
  assumes "\<And>x. lease_product (f x) = lease_product x"
    and "\<And>x. lease_status (f x) = ACTIVE \<Longrightarrow> lease_status x = ACTIVE"
  shows "length (activeLeases p (map f xs)) \<le> length (activeLeases p xs)"
proof (induction xs)
  case Nil
  then show ?case by (simp add: activeLeases_def)
next
  case (Cons x xs)
  then show ?case
    using assms(1) [of x] assms(2) [of x] by (auto simp: activeLeases_def)
qed

lemma createLease_keeps:
  assumes "oneActivePerProduct store"
    and "createLease now productId holderId d store = Inr (lease, store')"
  shows "oneActivePerProduct store'"
proof -
  from assms(2) have none: "activeLeases productId store = []"
    and st: "store' = store @ [lease]"
    and pr: "lease_product lease = productId"
    by (auto simp: createLease_def Let_def split: if_splits list.splits)
  show ?thesis
    unfolding oneActivePerProduct_def
  proof
    fix p
    show "length (activeLeases p store') \<le> 1"
    proof (cases "p = productId")
      case True
      with none st show ?thesis by (simp add: activeLeases_append) (simp add: activeLeases_def)
    next
      case False
      with pr have "activeLeases p [lease] = []" by (simp add: activeLeases_def)
      with st assms(1) show ?thesis
        by (simp add: activeLeases_append oneActivePerProduct_def)
    qed
  qed
qed

lemma cancelLease_keeps:
  assumes "oneActivePerProduct store" and "cancelLease leaseId requesterId store = Inr store'"
  shows "oneActivePerProduct store'"
proof -
  let ?f = "\<lambda>x. if lease_id x = leaseId \<and> lease_status x = ACTIVE
                 then x\<lparr>lease_status := CANCELLED\<rparr> else x"
  from assms(2) have st: "store' = map ?f store"
    by (auto simp: cancelLease_def split: option.splits if_splits)
  have "length (activeLeases p (map ?f store)) \<le> length (activeLeases p store)" for p
    by (rule activeLeases_demote) (simp_all split: if_splits)
  with assms(1) st show ?thesis
    unfolding oneActivePerProduct_def by (meson order_trans)
qed

lemma expirySweep_keeps:
  assumes "oneActivePerProduct store"
  shows "oneActivePerProduct (expirySweep now store)"
proof -
  let ?f = "\<lambda>l. if lease_status l = ACTIVE \<and> lease_expiresAt l \<le> now
               then l\<lparr>lease_status := EXPIRED\<rparr> else l"
  have "length (activeLeases p (map ?f store)) \<le> length (activeLeases p store)" for p
    by (rule activeLeases_demote) (simp_all split: if_splits)
  with assms show ?thesis
    unfolding oneActivePerProduct_def expirySweep_def by (meson order_trans)
qed

lemma serve_keeps:
  "oneActivePerProduct store \<Longrightarrow> oneActivePerProduct (serve r store)"
proof (cases r)
  case (CreateLease now productId holderId d)
  assume inv: "oneActivePerProduct store"
  show ?thesis
  proof (cases "createLease now productId holderId d store")
    case (Inl e)
    with CreateLease inv show ?thesis by simp
  next
    case (Inr res)
    obtain lease store' where "res = (lease, store')" by (cases res)
    with Inr CreateLease createLease_keeps [OF inv] show ?thesis by simp
  qed
next
  case (CancelLease leaseId requesterId)
  assume inv: "oneActivePerProduct store"
  show ?thesis
  proof (cases "cancelLease leaseId requesterId store")
    case (Inl e)
    with CancelLease inv show ?thesis by simp
  next
    case (Inr store')
    with CancelLease cancelLease_keeps [OF inv] show ?thesis by simp
  qed
next
  case (ExpirySweep now)
  assume "oneActivePerProduct store"
  with ExpirySweep show ?thesis by (simp add: expirySweep_keeps)
qed

lemma serveAll_keeps:
  "oneActivePerProduct store \<Longrightarrow> oneActivePerProduct (serveAll rs store)"
  by (induction rs arbitrary: store) (simp_all add: serve_keeps)

lemma createLease_conflict:
  assumes "length (activeLeases p store) \<le> 1" and "l \<in> set (activeLeases p store)"
    and "d \<in> {30, 60, 120, 1440}"
  shows "createLease now p h d store = Inl (Conflict (lease_id l))"
proof -
  from assms(1,2) have "activeLeases p store = [l]"
    by (cases "activeLeases p store") auto
  with assms(3) show ?thesis
    by (auto simp: createLease_def)
qed

text \<open>
  C1. After any sequence of create, cancel and sweep requests served from the empty
  store, every product has at most one lease with status ACTIVE; and while such a lease
  exists, creating another for the product, with a valid duration, fails with a Conflict
  that carries the id of the existing lease.
\<close>

theorem at_most_one_active_lease:
  "length (activeLeases p (serveAll reqs [])) \<le> 1
   \<and> (l \<in> set (activeLeases p (serveAll reqs [])) \<and> d \<in> {30, 60, 120, 1440}
        \<longrightarrow> createLease now p h d (serveAll reqs []) = Inl (Conflict (lease_id l)))"
proof -
  have "oneActivePerProduct []"
    by (simp add: oneActivePerProduct_def activeLeases_def)
  then have "oneActivePerProduct (serveAll reqs [])"
    by (rule serveAll_keeps)
  then have one: "length (activeLeases p (serveAll reqs [])) \<le> 1"
    by (simp add: oneActivePerProduct_def)
  with createLease_conflict [OF one] show ?thesis
    by blast
qed

lemma sampleLease_active: "activeLeases (js ''p1'') [sampleLease] = [sampleLease]"
  by (simp add: activeLeases_def sampleLease_def)

lemma sample_first: "createLease 0 (js ''p1'') (js ''u1'') 30 [] = Inr (sampleLease, [sampleLease])"
  by (simp add: createLease_def activeLeases_def sampleLease_def Let_def)

lemma sample_second:
  "createLease 5 (js ''p1'') (js ''u2'') 60 [sampleLease] = Inl (Conflict 0)"
  by (simp add: createLease_def sampleLease_active) (simp add: sampleLease_def)

lemma sample_sweep: "expirySweep 10 [sampleLease] = [sampleLease]"
  by (simp add: expirySweep_def sampleLease_def)

lemma sampleRequests_store: "serveAll sampleRequests [] = [sampleLease]"
  by (simp add: sampleRequests_def sample_first sample_second sample_sweep)

theorem at_most_one_active_lease_witness:
  "length (activeLeases (js ''p1'') (serveAll sampleRequests [])) \<le> 1
   \<and> sampleLease \<in> set (activeLeases (js ''p1'') (serveAll sampleRequests []))
   \<and> (60::int) \<in> {30, 60, 120, 1440}
   \<and> createLease 20 (js ''p1'') (js ''u3'') 60 (serveAll sampleRequests [])
        = Inl (Conflict (lease_id sampleLease))"
proof -
  note t = at_most_one_active_lease [of "js ''p1''" sampleRequests sampleLease 60 20 "js ''u3''"]
  have hyp: "sampleLease \<in> set (activeLeases (js ''p1'') (serveAll sampleRequests []))
      \<and> (60::int) \<in> {30, 60, 120, 1440}"
    by (simp add: sampleRequests_store sampleLease_active)
  from t [THEN conjunct1] hyp [THEN conjunct1] hyp [THEN conjunct2]
    t [THEN conjunct2, THEN mp, OF hyp]
  show ?thesis by (intro conjI)
qed

end
